theory Spec2Isabelle
  imports Complex_Main
begin

section \<open>Numbers\<close>

text \<open>
  The type \<^verbatim>\<open>number\<close> of the source: the finite values, the two infinities and
  \<^verbatim>\<open>NaN\<close>. A finite value is kept as the real number it stands for; the comparisons
  of the constructors with 200, 400 and 599 are exact on it.
\<close>

datatype number = Finite real | PosInfinity | NegInfinity | NaN

text \<open>
  \<^verbatim>\<open>a < b\<close>: false as soon as one side is \<^verbatim>\<open>NaN\<close>.
\<close>

fun number_less :: "number \<Rightarrow> number \<Rightarrow> bool" where
  "number_less NaN b = False"
| "number_less a NaN = False"
| "number_less (Finite a) (Finite b) = (a < b)"
| "number_less PosInfinity b = False"
| "number_less a NegInfinity = False"
| "number_less NegInfinity b = True"
| "number_less a PosInfinity = True"

text \<open>
  \<^verbatim>\<open>a > b\<close> is \<^verbatim>\<open>b < a\<close>. \<^verbatim>\<open>a >= b\<close> is false when one side is \<^verbatim>\<open>NaN\<close> and otherwise
  the negation of \<^verbatim>\<open>a < b\<close>.
\<close>

definition number_greater :: "number \<Rightarrow> number \<Rightarrow> bool" where
  "number_greater a b = number_less b a"

definition number_greater_eq :: "number \<Rightarrow> number \<Rightarrow> bool" where
  "number_greater_eq a b = (a \<noteq> NaN \<and> b \<noteq> NaN \<and> \<not> number_less a b)"

section \<open>Values on the wire\<close>

text \<open>
  The envelopes are JavaScript objects handed to \<^verbatim>\<open>res.json\<close>. An object is kept
  as an association list: JavaScript objects remember the order in which their keys
  were inserted, and \<^verbatim>\<open>toJSON\<close> builds its result with one object literal.
\<close>

datatype json =
    JNull
  | JBool bool
  | JNumber number
  | JString string
  | JArray "json list"
  | JObject "(string \<times> json) list"

text \<open>The keys of an object literal, in insertion order.\<close>

definition keys :: "(string \<times> json) list \<Rightarrow> string list" where
  "keys obj = map fst obj"

section \<open>The runtime the constructors read\<close>

text \<open>
  Both constructors call \<^verbatim>\<open>new Date().toISOString()\<close>, and \<^verbatim>\<open>ApiError\<close> calls
  \<^verbatim>\<open>Error.captureStackTrace\<close> when no stack is passed in. What the clock and the call
  stack hold at that instant is an input of the model. So is \<open>number_text\<close>: how the
  runtime prints, inside a template literal, a finite number that is not an integer
  of magnitude up to \<open>2^53 - 1\<close> (the shortest digits that read back, an exponent from
  \<open>1e21\<close> on).
\<close>

record world =
  now :: string
  captured_stack :: string
  number_text :: "real \<Rightarrow> string"

text \<open>
  The built-in \<^verbatim>\<open>Error\<close>, thrown by both constructors on a status code out of range,
  with its message.
\<close>

datatype error = Error string

text \<open>
  A parameter with a default value: the default applies when the argument is
  \<^verbatim>\<open>undefined\<close>, here \<open>None\<close>.
\<close>

definition default_arg :: "'a \<Rightarrow> 'a option \<Rightarrow> 'a" where
  "default_arg d arg = (case arg of None \<Rightarrow> d | Some v \<Rightarrow> v)"

text \<open>
  A number inside a template literal. An integer of magnitude up to \<open>2^53 - 1\<close> is
  printed with all its decimal digits; \<^verbatim>\<open>NaN\<close> and the infinities by name; every
  other finite number as the runtime prints it.
\<close>

fun digits :: "nat \<Rightarrow> string" where
  "digits n =
     (if n < 10 then [char_of (48 + n)]
      else digits (n div 10) @ [char_of (48 + n mod 10)])"

definition integer_to_string :: "int \<Rightarrow> string" where
  "integer_to_string i = (if i < 0 then CHR ''-'' # digits (nat (- i)) else digits (nat i))"

definition number_to_string :: "world \<Rightarrow> number \<Rightarrow> string" where
  "number_to_string w x =
     (case x of
        NaN \<Rightarrow> ''NaN''
      | PosInfinity \<Rightarrow> ''Infinity''
      | NegInfinity \<Rightarrow> ''-Infinity''
      | Finite r \<Rightarrow>
          if r = of_int \<lfloor>r\<rfloor> \<and> \<bar>r\<bar> \<le> 9007199254740991
          then integer_to_string \<lfloor>r\<rfloor>
          else number_text w r)"

text \<open>
  \<^verbatim>\<open>...(v && { key: v })\<close> for an optional string \<open>v\<close>: \<^verbatim>\<open>undefined\<close> and the empty
  string are falsy and spread nothing; any other string contributes the key.
\<close>

definition spread_string :: "string \<Rightarrow> string option \<Rightarrow> (string \<times> json) list" where
  "spread_string key v =
     (case v of
        None \<Rightarrow> []
      | Some s \<Rightarrow> if s = [] then [] else [(key, JString s)])"

text \<open>An optional property of an object: the key exists only when a value was given.\<close>

definition optional_key :: "string \<Rightarrow> ('a \<Rightarrow> json) \<Rightarrow> 'a option \<Rightarrow> (string \<times> json) list" where
  "optional_key key to_json v = (case v of None \<Rightarrow> [] | Some x \<Rightarrow> [(key, to_json x)])"

section \<open>ApiError (src/utils/api-error.ts)\<close>

text \<open>
  \<^verbatim>\<open>interface ErrorDetail { field?: string; message: string; code?: string }\<close>. The
  details are objects the caller built; the class stores the array it is given and
  \<^verbatim>\<open>toJSON\<close> hands the same objects on, each with its keys as the caller wrote them.
\<close>

type_synonym ErrorDetail = "(string \<times> json) list"

text \<open>
  The fields of the class in the order it declares them, then \<open>name\<close> and \<open>stack\<close>,
  which it inherits from \<^verbatim>\<open>Error\<close> and sets in its constructor.
\<close>

record ApiError =
  statusCode :: number
  data :: json
  message :: string
  success :: bool
  errors :: "ErrorDetail list"
  code :: "string option"
  timestamp :: string
  correlationId :: "string option"
  name :: string
  stack :: string

text \<open>
  The constructor. The range check comes first and throws; otherwise the fields are
  set, \<open>data\<close> and \<open>success\<close> from their initialisers, \<open>correlationId\<close> left
  undefined. \<^verbatim>\<open>if (stack)\<close> takes a non-empty string only.
\<close>

definition ApiError_new ::
  "world \<Rightarrow> number \<Rightarrow> string option \<Rightarrow> ErrorDetail list option \<Rightarrow> string option
     \<Rightarrow> string option \<Rightarrow> error + ApiError" where
  "ApiError_new w sc message_arg errors_arg stack_arg code_arg =
     (if number_less sc (Finite 400) \<or> number_greater sc (Finite 599)
      then Inl (Error (''Invalid status code: '' @ number_to_string w sc
                        @ ''. Must be between 400-599''))
      else Inr \<lparr> ApiError.statusCode = sc,
                 data = JNull,
                 message = default_arg ''Something went wrong'' message_arg,
                 success = False,
                 errors = default_arg [] errors_arg,
                 code = code_arg,
                 timestamp = now w,
                 correlationId = None,
                 name = ''ApiError'',
                 stack = (case stack_arg of
                            None \<Rightarrow> captured_stack w
                          | Some s \<Rightarrow> if s = [] then captured_stack w else s) \<rparr>)"

definition ApiError_toJSON :: "ApiError \<Rightarrow> (string \<times> json) list" where
  "ApiError_toJSON e =
     [(''success'', JBool (ApiError.success e)),
      (''statusCode'', JNumber (ApiError.statusCode e)),
      (''message'', JString (ApiError.message e)),
      (''data'', ApiError.data e),
      (''errors'', JArray (map JObject (errors e)))]
     @ spread_string ''code'' (ApiError.code e)
     @ [(''timestamp'', JString (ApiError.timestamp e))]
     @ spread_string ''correlationId'' (correlationId e)"

subsection \<open>Writes after construction\<close>

text \<open>
  \<open>correlationId\<close> is the one field the class declares without \<^verbatim>\<open>readonly\<close>; the
  middleware writes it with a plain assignment \<^verbatim>\<open>err.correlationId = v\<close>. There is no
  setter.
\<close>

definition assign_correlationId :: "string option \<Rightarrow> ApiError \<Rightarrow> ApiError" where
  "assign_correlationId v e = e\<lparr>correlationId := v\<rparr>"





subsection \<open>The static factories\<close>

definition ApiError_badRequest ::
  "world \<Rightarrow> string option \<Rightarrow> ErrorDetail list option \<Rightarrow> error + ApiError" where
  "ApiError_badRequest w message_arg errors_arg =
     ApiError_new w (Finite 400) (Some (default_arg ''Bad Request'' message_arg))
       (Some (default_arg [] errors_arg)) None (Some ''BAD_REQUEST'')"

definition ApiError_unauthorized :: "world \<Rightarrow> string option \<Rightarrow> error + ApiError" where
  "ApiError_unauthorized w message_arg =
     ApiError_new w (Finite 401) (Some (default_arg ''Unauthorized access'' message_arg))
       (Some []) None (Some ''UNAUTHORIZED'')"

definition ApiError_forbidden :: "world \<Rightarrow> string option \<Rightarrow> error + ApiError" where
  "ApiError_forbidden w message_arg =
     ApiError_new w (Finite 403) (Some (default_arg ''Access forbidden'' message_arg))
       (Some []) None (Some ''FORBIDDEN'')"

definition ApiError_notFound :: "world \<Rightarrow> string option \<Rightarrow> error + ApiError" where
  "ApiError_notFound w resource_arg =
     ApiError_new w (Finite 404)
       (Some (default_arg ''Resource'' resource_arg @ '' not found''))
       (Some []) None (Some ''NOT_FOUND'')"

definition ApiError_conflict :: "world \<Rightarrow> string option \<Rightarrow> error + ApiError" where
  "ApiError_conflict w message_arg =
     ApiError_new w (Finite 409) (Some (default_arg ''Resource conflict'' message_arg))
       (Some []) None (Some ''CONFLICT'')"

definition ApiError_validation ::
  "world \<Rightarrow> string option \<Rightarrow> ErrorDetail list option \<Rightarrow> error + ApiError" where
  "ApiError_validation w message_arg errors_arg =
     ApiError_new w (Finite 422) (Some (default_arg ''Validation failed'' message_arg))
       (Some (default_arg [] errors_arg)) None (Some ''VALIDATION_ERROR'')"

definition ApiError_internal :: "world \<Rightarrow> string option \<Rightarrow> error + ApiError" where
  "ApiError_internal w message_arg =
     ApiError_new w (Finite 500) (Some (default_arg ''Internal server error'' message_arg))
       (Some []) None (Some ''INTERNAL_ERROR'')"

section \<open>ApiResponse (src/app.ts, the part imported as utils/api-response)\<close>

text \<open>
  \<^verbatim>\<open>interface ResponseMetadata { total?, page?, limit?, totalPages?: number;
  hasNext?, hasPrevious?: boolean }\<close>. The metadata is an object the caller built; the
  class stores it and \<^verbatim>\<open>toJSON\<close> hands the same object on.
\<close>

type_synonym ResponseMetadata = "(string \<times> json) list"

record ApiResponse =
  success :: bool
  statusCode :: number
  data :: json
  message :: string
  metadata :: "ResponseMetadata option"
  timestamp :: string

definition ApiResponse_new ::
  "world \<Rightarrow> number \<Rightarrow> json \<Rightarrow> string option \<Rightarrow> ResponseMetadata option
     \<Rightarrow> error + ApiResponse" where
  "ApiResponse_new w sc d message_arg metadata_arg =
     (if number_less sc (Finite 200) \<or> number_greater_eq sc (Finite 400)
      then Inl (Error (''Invalid success status code: '' @ number_to_string w sc
                        @ ''. Must be between 200-399''))
      else Inr \<lparr> ApiResponse.success = True,
                 statusCode = sc,
                 data = d,
                 message = default_arg ''Success'' message_arg,
                 metadata = metadata_arg,
                 timestamp = now w \<rparr>)"

definition ApiResponse_toJSON :: "ApiResponse \<Rightarrow> (string \<times> json) list" where
  "ApiResponse_toJSON r =
     [(''success'', JBool (ApiResponse.success r)),
      (''statusCode'', JNumber (ApiResponse.statusCode r)),
      (''message'', JString (ApiResponse.message r)),
      (''data'', ApiResponse.data r)]
     @ optional_key ''metadata'' JObject (metadata r)
     @ [(''timestamp'', JString (ApiResponse.timestamp r))]"

subsection \<open>The static factories\<close>

definition ApiResponse_ok :: "world \<Rightarrow> json \<Rightarrow> string option \<Rightarrow> error + ApiResponse" where
  "ApiResponse_ok w d message_arg =
     ApiResponse_new w (Finite 200) d (Some (default_arg ''Success'' message_arg)) None"

definition ApiResponse_created :: "world \<Rightarrow> json \<Rightarrow> string option \<Rightarrow> error + ApiResponse" where
  "ApiResponse_created w d message_arg =
     ApiResponse_new w (Finite 201) d
       (Some (default_arg ''Resource created successfully'' message_arg)) None"

definition ApiResponse_noContent :: "world \<Rightarrow> string option \<Rightarrow> error + ApiResponse" where
  "ApiResponse_noContent w message_arg =
     ApiResponse_new w (Finite 204) JNull
       (Some (default_arg ''Operation completed successfully'' message_arg)) None"

definition ApiResponse_paginated ::
  "world \<Rightarrow> json list \<Rightarrow> ResponseMetadata \<Rightarrow> string option \<Rightarrow> error + ApiResponse" where
  "ApiResponse_paginated w items md message_arg =
     ApiResponse_new w (Finite 200) (JArray items)
       (Some (default_arg ''Data retrieved successfully'' message_arg)) (Some md)"

section \<open>asyncHandler (src/utils/async-handler.ts)\<close>

text \<open>
  What a controller does with the \<^verbatim>\<open>res\<close> and \<^verbatim>\<open>next\<close> it is given: it writes a
  response (status and body), or it calls \<^verbatim>\<open>next\<close> with a failure.
\<close>

datatype 'e effect = Respond number "(string \<times> json) list" | Next 'e

text \<open>
  How the promise a controller returned ends: fulfilled, rejected with a reason, or
  never settled.
\<close>

datatype 'e promise = Fulfilled | Rejected 'e | Pending

text \<open>
  The call \<^verbatim>\<open>requestHandler(req, res, next)\<close> itself either returns a promise or
  throws. An \<^verbatim>\<open>async\<close> function never throws from the call: an exception raised in its
  body, also before its first \<^verbatim>\<open>await\<close>, rejects the promise it returns. A function
  that is not \<^verbatim>\<open>async\<close> (its type still is \<^verbatim>\<open>AsyncController\<close> when it returns a
  promise on its other paths, or never returns) throws from the call.
\<close>

datatype 'e completion = Throws 'e | Returns "'e promise"

text \<open>
  One run of a controller on a request: the effects it performed, in order, up to the
  point where its call threw or its promise settled, and how it completed.
\<close>

type_synonym ('req, 'e) AsyncController = "'req \<Rightarrow> 'e effect list \<times> 'e completion"

text \<open>How the call of the middleware ends for its caller.\<close>

datatype 'e outcome = Returned | Escaped 'e

text \<open>
  \<^verbatim>\<open>Promise.resolve(requestHandler(req, res, next)).catch((err) => { next(err); })\<close>.
  The argument of \<^verbatim>\<open>Promise.resolve\<close> is evaluated first, outside any \<^verbatim>\<open>try\<close>: when
  that call throws, no promise exists, \<^verbatim>\<open>catch\<close> is never reached and the exception
  leaves the middleware. Otherwise the callback of \<^verbatim>\<open>catch\<close> runs once if the promise
  rejects, after everything the controller did, and not at all if it does not.
\<close>

definition catch_next :: "'e promise \<Rightarrow> 'e effect list" where
  "catch_next p = (case p of Rejected err \<Rightarrow> [Next err] | Fulfilled \<Rightarrow> [] | Pending \<Rightarrow> [])"

definition asyncHandler ::
  "('req, 'e) AsyncController \<Rightarrow> 'req \<Rightarrow> 'e effect list \<times> 'e outcome" where
  "asyncHandler requestHandler req =
     (case requestHandler req of
        (effs, Throws err) \<Rightarrow> (effs, Escaped err)
      | (effs, Returns p) \<Rightarrow> (effs @ catch_next p, Returned))"

text \<open>The failures forwarded to \<^verbatim>\<open>next\<close> and the responses written, in a run.\<close>

definition forwarded :: "'e effect list \<Rightarrow> 'e list" where
  "forwarded effs = concat (map (\<lambda>x. case x of Next err \<Rightarrow> [err] | Respond _ _ \<Rightarrow> []) effs)"

definition responses :: "'e effect list \<Rightarrow> (number \<times> (string \<times> json) list) list" where
  "responses effs =
     concat (map (\<lambda>x. case x of Respond st body \<Rightarrow> [(st, body)] | Next _ \<Rightarrow> []) effs)"

subsection \<open>The health check controller (src/controllers/healthcheck.controllers.ts)\<close>

text \<open>
  An \<^verbatim>\<open>async\<close> arrow function: had the constructor thrown, the promise would reject.
\<close>

definition healthCheck_controller :: "world \<Rightarrow> ('req, error) AsyncController" where
  "healthCheck_controller w req =
     (case ApiResponse_new w (Finite 200) (JObject [(''message'', JString ''Server is running.'')])
             None None of
        Inl err \<Rightarrow> ([], Returns (Rejected err))
      | Inr r \<Rightarrow> ([Respond (Finite 200) (ApiResponse_toJSON r)], Returns Fulfilled))"

definition healthCheck :: "world \<Rightarrow> 'req \<Rightarrow> error effect list \<times> error outcome" where
  "healthCheck w = asyncHandler (healthCheck_controller w)"

text \<open>
  What the middleware itself added to a run: the effects after those of the controller.
\<close>

definition wrapper_effects :: "('req, 'e) AsyncController \<Rightarrow> 'req \<Rightarrow> 'e effect list" where
  "wrapper_effects requestHandler req =
     drop (length (fst (requestHandler req))) (fst (asyncHandler requestHandler req))"

section \<open>Facts about the constructors\<close>

text \<open>
  On every finite number the two range checks do what their messages say, the one of
  \<open>ApiResponse\<close> up to 400 exclusive; both infinities are refused.
\<close>

lemma ApiError_new_in_range:
  "400 \<le> r \<Longrightarrow> r \<le> 599 \<Longrightarrow>
   ApiError_new w (Finite r) m es st cd =
     Inr \<lparr> ApiError.statusCode = Finite r, data = JNull,
           message = default_arg ''Something went wrong'' m, success = False,
           errors = default_arg [] es, code = cd, timestamp = now w,
           correlationId = None, name = ''ApiError'',
           stack = (case st of None \<Rightarrow> captured_stack w
                    | Some s \<Rightarrow> if s = [] then captured_stack w else s) \<rparr>"
  by (simp add: ApiError_new_def number_greater_def)

lemma ApiError_new_out_of_range:
  "r < 400 \<or> 599 < r \<Longrightarrow>
   ApiError_new w (Finite r) m es st cd =
     Inl (Error (''Invalid status code: '' @ number_to_string w (Finite r)
                 @ ''. Must be between 400-599''))"
  by (auto simp: ApiError_new_def number_greater_def)

lemma ApiError_new_infinite:
  "ApiError_new w PosInfinity m es st cd =
     Inl (Error ''Invalid status code: Infinity. Must be between 400-599'')"
  "ApiError_new w NegInfinity m es st cd =
     Inl (Error ''Invalid status code: -Infinity. Must be between 400-599'')"
  by (simp_all add: ApiError_new_def number_greater_def number_to_string_def)

lemma integer_to_string_200: "integer_to_string 200 = ''200''"
  by code_simp

lemma ApiError_new_200:
  "ApiError_new w (Finite 200) m es st cd =
     Inl (Error ''Invalid status code: 200. Must be between 400-599'')"
  by (simp add: ApiError_new_def number_to_string_def integer_to_string_200)

lemma ApiResponse_new_in_range:
  "200 \<le> r \<Longrightarrow> r < 400 \<Longrightarrow>
   ApiResponse_new w (Finite r) d m md =
     Inr \<lparr> ApiResponse.success = True, statusCode = Finite r, data = d,
           message = default_arg ''Success'' m, metadata = md, timestamp = now w \<rparr>"
  by (simp add: ApiResponse_new_def number_greater_eq_def)

lemma ApiResponse_new_out_of_range:
  "r < 200 \<or> 400 \<le> r \<Longrightarrow>
   ApiResponse_new w (Finite r) d m md =
     Inl (Error (''Invalid success status code: '' @ number_to_string w (Finite r)
                 @ ''. Must be between 200-399''))"
  by (auto simp: ApiResponse_new_def number_greater_eq_def)

lemma ApiResponse_new_infinite:
  "ApiResponse_new w PosInfinity d m md =
     Inl (Error ''Invalid success status code: Infinity. Must be between 200-399'')"
  "ApiResponse_new w NegInfinity d m md =
     Inl (Error ''Invalid success status code: -Infinity. Must be between 200-399'')"
  by (simp_all add: ApiResponse_new_def number_greater_eq_def number_to_string_def)

text \<open>
  C2. The claim: a status code outside 400 to 599 makes the \<open>ApiError\<close> constructor
  fail. \<^verbatim>\<open>NaN\<close> is outside, yet \<^verbatim>\<open>NaN < 400\<close> and \<^verbatim>\<open>NaN > 599\<close> are both false:
  the check lets it through and the constructor returns an envelope whose status
  code is \<^verbatim>\<open>NaN\<close>.
\<close>

theorem ApiError_new_NaN_constructs:
  "ApiError_new w NaN m es st cd =
     Inr \<lparr> ApiError.statusCode = NaN, data = JNull,
           message = default_arg ''Something went wrong'' m, success = False,
           errors = default_arg [] es, code = cd, timestamp = now w,
           correlationId = None, name = ''ApiError'',
           stack = (case st of None \<Rightarrow> captured_stack w
                    | Some s \<Rightarrow> if s = [] then captured_stack w else s) \<rparr>"
  by (simp add: ApiError_new_def number_greater_def)

text \<open>
  C3. The claim: a status code outside 200 to 399 makes the \<open>ApiResponse\<close>
  constructor fail. The check is \<^verbatim>\<open>statusCode < 200 || statusCode >= 400\<close>: 399.5 is
  above 399 and below 400, and \<^verbatim>\<open>NaN\<close> compares false with both bounds, so for
  either the constructor returns an envelope.
\<close>

theorem ApiResponse_new_out_of_range_constructs:
  "ApiResponse_new w (Finite 399.5) d m md =
     Inr \<lparr> ApiResponse.success = True, statusCode = Finite 399.5, data = d,
           message = default_arg ''Success'' m, metadata = md, timestamp = now w \<rparr>
   \<and> ApiResponse_new w NaN d m md =
     Inr \<lparr> ApiResponse.success = True, statusCode = NaN, data = d,
           message = default_arg ''Success'' m, metadata = md, timestamp = now w \<rparr>"
  by (simp add: ApiResponse_new_def number_greater_eq_def)

section \<open>Facts about serialisation\<close>

lemma spread_string_keys:
  "keys (spread_string key v) = (case v of None \<Rightarrow> [] | Some s \<Rightarrow> if s = [] then [] else [key])"
  by (simp add: keys_def spread_string_def split: option.split)

lemma optional_key_keys:
  "keys (optional_key key f v) = (case v of None \<Rightarrow> [] | Some x \<Rightarrow> [key])"
  by (simp add: keys_def optional_key_def split: option.split)

lemma ApiError_toJSON_keys:
  "keys (ApiError_toJSON e) =
     [''success'', ''statusCode'', ''message'', ''data'', ''errors'']
     @ keys (spread_string ''code'' (ApiError.code e))
     @ [''timestamp'']
     @ keys (spread_string ''correlationId'' (correlationId e))"
  by (simp add: ApiError_toJSON_def keys_def)

lemma ApiResponse_toJSON_keys:
  "keys (ApiResponse_toJSON r) =
     [''success'', ''statusCode'', ''message'', ''data'']
     @ keys (optional_key ''metadata'' JObject (metadata r))
     @ [''timestamp'']"
  by (simp add: ApiResponse_toJSON_def keys_def)

text \<open>
  C5. The claim gives every factory but \<open>validation\<close> at most one \<open>ErrorDetail\<close>.
  \<open>badRequest\<close> takes an \<open>errors\<close> argument like \<open>validation\<close> and hands it to the
  constructor unchanged, so it carries as many details as it is given: here two.
\<close>

theorem badRequest_many_details_counterexample:
  "(case ApiError_badRequest \<lparr> now = ''2025-08-20T07:28:00.000Z'', captured_stack = [],
        number_text = (\<lambda>r. ''?'') \<rparr>
           None
           (Some [[(''field'', JString ''email''),
                   (''message'', JString ''Valid email is required'')],
                  [(''field'', JString ''password''),
                   (''message'', JString ''Password too short'')]]) of
      Inl err \<Rightarrow> 0
    | Inr e \<Rightarrow> length (errors e)) = 2"
  by (simp add: ApiError_badRequest_def ApiError_new_in_range default_arg_def)

text \<open>
  C5, as the code has it. \<open>unauthorized\<close>, \<open>forbidden\<close>, \<open>notFound\<close>, \<open>conflict\<close> and
  \<open>internal\<close> build an envelope with no \<open>ErrorDetail\<close> at all; \<open>badRequest\<close> and
  \<open>validation\<close> build one with exactly the sequence they were given (empty when none
  was given), of any length.
\<close>

theorem factories_errors_carried:
  "(\<exists>e. ApiError_unauthorized w m = Inr e \<and> errors e = [])
   \<and> (\<exists>e. ApiError_forbidden w m = Inr e \<and> errors e = [])
   \<and> (\<exists>e. ApiError_notFound w m = Inr e \<and> errors e = [])
   \<and> (\<exists>e. ApiError_conflict w m = Inr e \<and> errors e = [])
   \<and> (\<exists>e. ApiError_internal w m = Inr e \<and> errors e = [])
   \<and> (\<exists>e. ApiError_badRequest w m es = Inr e \<and> errors e = default_arg [] es)
   \<and> (\<exists>e. ApiError_validation w m es = Inr e \<and> errors e = default_arg [] es)"
  by (simp add: ApiError_unauthorized_def ApiError_forbidden_def ApiError_notFound_def
      ApiError_conflict_def ApiError_internal_def ApiError_badRequest_def
      ApiError_validation_def ApiError_new_in_range default_arg_def)

text \<open>
  C6. Serialisation leaves a key out when its field is absent: no \<open>code\<close> and no
  \<open>correlationId\<close> key for an error envelope without them, no \<open>metadata\<close> key for a
  success envelope without it, and none of the three keys ever holds null. The envelope
  of \<^verbatim>\<open>new ApiError(404, "Project not found")\<close> serialises to exactly success,
  statusCode, message, data, errors and timestamp.
\<close>

theorem toJSON_omits_absent:
  "(ApiError.code e = None \<longrightarrow> ''code'' \<notin> set (keys (ApiError_toJSON e)))
   \<and> (correlationId e = None \<longrightarrow> ''correlationId'' \<notin> set (keys (ApiError_toJSON e)))
   \<and> (metadata r = None \<longrightarrow> ''metadata'' \<notin> set (keys (ApiResponse_toJSON r)))
   \<and> (''code'', JNull) \<notin> set (ApiError_toJSON e)
   \<and> (''correlationId'', JNull) \<notin> set (ApiError_toJSON e)
   \<and> (''metadata'', JNull) \<notin> set (ApiResponse_toJSON r)
   \<and> map_sum id ApiError_toJSON (ApiError_new w (Finite 404) (Some ''Project not found'') None None None)
       = Inr [(''success'', JBool False), (''statusCode'', JNumber (Finite 404)),
              (''message'', JString ''Project not found''), (''data'', JNull),
              (''errors'', JArray []), (''timestamp'', JString (now w))]"
proof -
  have "ApiError.code e = None \<longrightarrow> ''code'' \<notin> set (keys (ApiError_toJSON e))"
    by (simp add: ApiError_toJSON_keys spread_string_keys split: option.split)
  moreover have "correlationId e = None \<longrightarrow> ''correlationId'' \<notin> set (keys (ApiError_toJSON e))"
    by (simp add: ApiError_toJSON_keys spread_string_keys split: option.split)
  moreover have "metadata r = None \<longrightarrow> ''metadata'' \<notin> set (keys (ApiResponse_toJSON r))"
    by (simp add: ApiResponse_toJSON_keys optional_key_keys)
  moreover have "(''code'', JNull) \<notin> set (ApiError_toJSON e)"
    by (simp add: ApiError_toJSON_def spread_string_def split: option.split)
  moreover have "(''correlationId'', JNull) \<notin> set (ApiError_toJSON e)"
    by (simp add: ApiError_toJSON_def spread_string_def split: option.split)
  moreover have "(''metadata'', JNull) \<notin> set (ApiResponse_toJSON r)"
    by (simp add: ApiResponse_toJSON_def optional_key_def split: option.split)
  moreover have "map_sum id ApiError_toJSON
        (ApiError_new w (Finite 404) (Some ''Project not found'') None None None)
       = Inr [(''success'', JBool False), (''statusCode'', JNumber (Finite 404)),
              (''message'', JString ''Project not found''), (''data'', JNull),
              (''errors'', JArray []), (''timestamp'', JString (now w))]"
    by (simp add: ApiError_new_in_range ApiError_toJSON_def spread_string_def default_arg_def)
  ultimately show ?thesis by blast
qed

theorem toJSON_omits_absent_witness:
  "''code'' \<notin> set (keys (ApiError_toJSON
      \<lparr> ApiError.statusCode = Finite 404, data = JNull, message = ''Project not found'',
        success = False, errors = [], code = None,
        timestamp = ''2025-08-20T07:28:00.000Z'', correlationId = None,
        name = ''ApiError'', stack = ''at handler'' \<rparr>))
   \<and> ''correlationId'' \<notin> set (keys (ApiError_toJSON
      \<lparr> ApiError.statusCode = Finite 404, data = JNull, message = ''Project not found'',
        success = False, errors = [], code = None,
        timestamp = ''2025-08-20T07:28:00.000Z'', correlationId = None,
        name = ''ApiError'', stack = ''at handler'' \<rparr>))
   \<and> ''metadata'' \<notin> set (keys (ApiResponse_toJSON
      \<lparr> ApiResponse.success = True, statusCode = Finite 200, data = JNull, message = ''Success'',
        metadata = None, timestamp = ''2025-08-20T07:28:00.000Z'' \<rparr>))"
  using toJSON_omits_absent
    [of "\<lparr> ApiError.statusCode = Finite 404, data = JNull, message = ''Project not found'',
        success = False, errors = [], code = None,
        timestamp = ''2025-08-20T07:28:00.000Z'', correlationId = None,
        name = ''ApiError'', stack = ''at handler'' \<rparr>"
        "\<lparr> ApiResponse.success = True, statusCode = Finite 200, data = JNull, message = ''Success'',
        metadata = None, timestamp = ''2025-08-20T07:28:00.000Z'' \<rparr>"]
  by simp






text \<open>
  C8. Serialisation reads the stored fields and nothing else. \<open>toJSON\<close> takes the
  envelope alone, not the clock, and its output is fixed by the fields it lists: two
  error envelopes that agree on success, statusCode, message, data, errors, code,
  timestamp and correlationId serialise alike, whatever their \<open>name\<close> and \<open>stack\<close>,
  and two success envelopes that agree on their six fields serialise alike. So an
  envelope serialised again gives the same output. The timestamp written is the
  instant the constructor read, for both kinds of envelope, also after a correlation
  id was attached.
\<close>

theorem toJSON_timestamp_captured_once:
  "(ApiError_new w sc m es st cd = Inr e \<longrightarrow>
      map_of (ApiError_toJSON e) ''timestamp'' = Some (JString (now w))
      \<and> map_of (ApiError_toJSON (assign_correlationId v e)) ''timestamp''
          = Some (JString (now w)))
   \<and> (ApiResponse_new w sc' d m' md = Inr r \<longrightarrow>
        map_of (ApiResponse_toJSON r) ''timestamp'' = Some (JString (now w)))
   \<and> (ApiError.success e1 = ApiError.success e2
        \<and> ApiError.statusCode e1 = ApiError.statusCode e2
        \<and> ApiError.message e1 = ApiError.message e2
        \<and> ApiError.data e1 = ApiError.data e2
        \<and> errors e1 = errors e2
        \<and> ApiError.code e1 = ApiError.code e2
        \<and> ApiError.timestamp e1 = ApiError.timestamp e2
        \<and> correlationId e1 = correlationId e2
      \<longrightarrow> ApiError_toJSON e1 = ApiError_toJSON e2)
   \<and> (ApiResponse.success r1 = ApiResponse.success r2
        \<and> ApiResponse.statusCode r1 = ApiResponse.statusCode r2
        \<and> ApiResponse.message r1 = ApiResponse.message r2
        \<and> ApiResponse.data r1 = ApiResponse.data r2
        \<and> metadata r1 = metadata r2
        \<and> ApiResponse.timestamp r1 = ApiResponse.timestamp r2
      \<longrightarrow> ApiResponse_toJSON r1 = ApiResponse_toJSON r2)"
proof -
  have read_e:
    "map_of (ApiError_toJSON x) ''timestamp'' = Some (JString (ApiError.timestamp x))" for x
    by (simp add: ApiError_toJSON_def spread_string_def split: option.split)
  have read_r:
    "map_of (ApiResponse_toJSON y) ''timestamp'' = Some (JString (ApiResponse.timestamp y))" for y
    by (simp add: ApiResponse_toJSON_def optional_key_def split: option.split)
  have built_e: "ApiError.timestamp e = now w" if "ApiError_new w sc m es st cd = Inr e"
    using that by (auto simp: ApiError_new_def split: if_splits)
  have built_r: "ApiResponse.timestamp r = now w" if "ApiResponse_new w sc' d m' md = Inr r"
    using that by (auto simp: ApiResponse_new_def split: if_splits)
  have kept: "ApiError.timestamp (assign_correlationId v e) = ApiError.timestamp e"
    by (simp add: assign_correlationId_def)
  have first: "ApiError_new w sc m es st cd = Inr e \<longrightarrow>
      map_of (ApiError_toJSON e) ''timestamp'' = Some (JString (now w))
      \<and> map_of (ApiError_toJSON (assign_correlationId v e)) ''timestamp''
          = Some (JString (now w))"
    by (simp add: read_e kept built_e)
  have second: "ApiResponse_new w sc' d m' md = Inr r \<longrightarrow>
        map_of (ApiResponse_toJSON r) ''timestamp'' = Some (JString (now w))"
    by (simp add: read_r built_r)
  have third: "ApiError.success e1 = ApiError.success e2
        \<and> ApiError.statusCode e1 = ApiError.statusCode e2
        \<and> ApiError.message e1 = ApiError.message e2
        \<and> ApiError.data e1 = ApiError.data e2
        \<and> errors e1 = errors e2
        \<and> ApiError.code e1 = ApiError.code e2
        \<and> ApiError.timestamp e1 = ApiError.timestamp e2
        \<and> correlationId e1 = correlationId e2
      \<longrightarrow> ApiError_toJSON e1 = ApiError_toJSON e2"
    unfolding ApiError_toJSON_def by (intro impI) (elim conjE, simp only:)
  have fourth: "ApiResponse.success r1 = ApiResponse.success r2
        \<and> ApiResponse.statusCode r1 = ApiResponse.statusCode r2
        \<and> ApiResponse.message r1 = ApiResponse.message r2
        \<and> ApiResponse.data r1 = ApiResponse.data r2
        \<and> metadata r1 = metadata r2
        \<and> ApiResponse.timestamp r1 = ApiResponse.timestamp r2
      \<longrightarrow> ApiResponse_toJSON r1 = ApiResponse_toJSON r2"
    unfolding ApiResponse_toJSON_def by (intro impI) (elim conjE, simp only:)
  from first second third fourth show ?thesis by (intro conjI)
qed

theorem toJSON_timestamp_captured_once_witness:
  "(\<exists>e. ApiError_new \<lparr> now = ''2025-08-20T07:28:00.000Z'', captured_stack = ''at handler'',
        number_text = (\<lambda>r. ''?'') \<rparr>
          (Finite 404) (Some ''Project not found'') None None None = Inr e
       \<and> map_of (ApiError_toJSON e) ''timestamp'' = Some (JString ''2025-08-20T07:28:00.000Z''))
   \<and> (\<exists>r. ApiResponse_new \<lparr> now = ''2025-08-20T07:28:00.000Z'', captured_stack = ''at handler'',
        number_text = (\<lambda>r. ''?'') \<rparr>
          (Finite 200) JNull None None = Inr r
       \<and> map_of (ApiResponse_toJSON r) ''timestamp'' = Some (JString ''2025-08-20T07:28:00.000Z''))
   \<and> ApiError_toJSON
        \<lparr> ApiError.statusCode = Finite 404, data = JNull, message = ''Project not found'',
          success = False, errors = [], code = None,
          timestamp = ''2025-08-20T07:28:00.000Z'', correlationId = None,
          name = ''ApiError'', stack = ''at handler'' \<rparr>
     = ApiError_toJSON
        \<lparr> ApiError.statusCode = Finite 404, data = JNull, message = ''Project not found'',
          success = False, errors = [], code = None,
          timestamp = ''2025-08-20T07:28:00.000Z'', correlationId = None,
          name = ''Error'', stack = ''at reporter'' \<rparr>"
proof -
  let ?w = "\<lparr> now = ''2025-08-20T07:28:00.000Z'', captured_stack = ''at handler'',
        number_text = (\<lambda>r. ''?'') \<rparr>"
  let ?a = "\<lparr> ApiError.statusCode = Finite 404, data = JNull, message = ''Project not found'',
          success = False, errors = [], code = None,
          timestamp = ''2025-08-20T07:28:00.000Z'', correlationId = None,
          name = ''ApiError'', stack = ''at handler'' \<rparr>"
  let ?b = "\<lparr> ApiError.statusCode = Finite 404, data = JNull, message = ''Project not found'',
          success = False, errors = [], code = None,
          timestamp = ''2025-08-20T07:28:00.000Z'', correlationId = None,
          name = ''Error'', stack = ''at reporter'' \<rparr>"
  have e_range: "(400::real) \<le> 404" "(404::real) \<le> 599" by simp_all
  have r_range: "(200::real) \<le> 200" "(200::real) < 400" by simp_all
  obtain e where e_built:
    "ApiError_new ?w (Finite 404) (Some ''Project not found'') None None None = Inr e"
    using ApiError_new_in_range [OF e_range] by blast
  obtain r where r_built: "ApiResponse_new ?w (Finite 200) JNull None None = Inr r"
    using ApiResponse_new_in_range [OF r_range] by blast
  note inst = toJSON_timestamp_captured_once
         [of ?w "Finite 404" "Some ''Project not found''" None None None e None "Finite 200" JNull
             None None r
             ?a ?b r r]
  have e_stamp: "map_of (ApiError_toJSON e) ''timestamp'' = Some (JString (now ?w))"
    using inst [THEN conjunct1] e_built by blast
  have r_stamp: "map_of (ApiResponse_toJSON r) ''timestamp'' = Some (JString (now ?w))"
    using inst [THEN conjunct2, THEN conjunct1] r_built by blast
  have agree:
    "ApiError.success ?a = ApiError.success ?b
     \<and> ApiError.statusCode ?a = ApiError.statusCode ?b
     \<and> ApiError.message ?a = ApiError.message ?b
     \<and> ApiError.data ?a = ApiError.data ?b
     \<and> errors ?a = errors ?b
     \<and> ApiError.code ?a = ApiError.code ?b
     \<and> ApiError.timestamp ?a = ApiError.timestamp ?b
     \<and> correlationId ?a = correlationId ?b"
    by simp
  have alike: "ApiError_toJSON ?a = ApiError_toJSON ?b"
    by (rule inst [THEN conjunct2, THEN conjunct2, THEN conjunct1, THEN mp, OF agree])
  have clock: "now ?w = ''2025-08-20T07:28:00.000Z''" by simp
  from e_built e_stamp have "\<exists>e. ApiError_new ?w (Finite 404) (Some ''Project not found'') None None None = Inr e
       \<and> map_of (ApiError_toJSON e) ''timestamp'' = Some (JString ''2025-08-20T07:28:00.000Z'')"
    unfolding clock by blast
  moreover from r_built r_stamp have "\<exists>r. ApiResponse_new ?w (Finite 200) JNull None None = Inr r
       \<and> map_of (ApiResponse_toJSON r) ''timestamp'' = Some (JString ''2025-08-20T07:28:00.000Z'')"
    unfolding clock by blast
  ultimately show ?thesis using alike by (intro conjI)
qed

text \<open>
  C9. \<open>paginated\<close> on a list of three items and the metadata total 50, page 1,
  limit 10, totalPages 5, with no message given, builds a success envelope that
  serialises to success true, statusCode 200, the default message, the three items
  as data, the metadata object as it was given and the timestamp of construction.
  The object literal of \<open>toJSON\<close> lists message before data; as a JSON object (a map
  from keys to values) it is the one the scenario writes.
\<close>

theorem paginated_scenario:
  "\<exists>r. ApiResponse_paginated w [a, b, c]
          [(''total'', JNumber (Finite 50)), (''page'', JNumber (Finite 1)),
           (''limit'', JNumber (Finite 10)), (''totalPages'', JNumber (Finite 5))] None = Inr r
       \<and> ApiResponse_toJSON r =
           [(''success'', JBool True), (''statusCode'', JNumber (Finite 200)),
            (''message'', JString ''Data retrieved successfully''),
            (''data'', JArray [a, b, c]),
            (''metadata'',
             JObject [(''total'', JNumber (Finite 50)), (''page'', JNumber (Finite 1)),
                      (''limit'', JNumber (Finite 10)), (''totalPages'', JNumber (Finite 5))]),
            (''timestamp'', JString (now w))]
       \<and> map_of (ApiResponse_toJSON r) =
           map_of [(''success'', JBool True), (''statusCode'', JNumber (Finite 200)),
                   (''data'', JArray [a, b, c]),
                   (''metadata'',
                    JObject [(''total'', JNumber (Finite 50)), (''page'', JNumber (Finite 1)),
                             (''limit'', JNumber (Finite 10)),
                             (''totalPages'', JNumber (Finite 5))]),
                   (''message'', JString ''Data retrieved successfully''),
                   (''timestamp'', JString (now w))]"
proof -
  let ?md = "[(''total'', JNumber (Finite 50)), (''page'', JNumber (Finite 1)),
              (''limit'', JNumber (Finite 10)), (''totalPages'', JNumber (Finite 5))]"
  let ?r = "\<lparr> ApiResponse.success = True, statusCode = Finite 200, data = JArray [a, b, c],
              message = ''Data retrieved successfully'', metadata = Some ?md,
              timestamp = now w \<rparr>"
  have built: "ApiResponse_paginated w [a, b, c] ?md None = Inr ?r"
    by (simp add: ApiResponse_paginated_def ApiResponse_new_in_range default_arg_def)
  have wire: "ApiResponse_toJSON ?r
      = [(''success'', JBool True), (''statusCode'', JNumber (Finite 200)),
         (''message'', JString ''Data retrieved successfully''),
         (''data'', JArray [a, b, c]),
         (''metadata'', JObject ?md),
         (''timestamp'', JString (now w))]"
    by (simp add: ApiResponse_toJSON_def optional_key_def)
  have same_object:
    "map_of [(''success'', JBool True), (''statusCode'', JNumber (Finite 200)),
         (''message'', JString ''Data retrieved successfully''),
         (''data'', JArray [a, b, c]),
         (''metadata'', JObject ?md),
         (''timestamp'', JString (now w))]
     = map_of [(''success'', JBool True), (''statusCode'', JNumber (Finite 200)),
                   (''data'', JArray [a, b, c]),
                   (''metadata'', JObject ?md),
                   (''message'', JString ''Data retrieved successfully''),
                   (''timestamp'', JString (now w))]"
    by (rule ext) simp
  from built wire same_object show ?thesis by simp
qed

text \<open>
  C10. The serialisation of an error envelope has the key \<open>code\<close> exactly when
  \<open>code\<close> is a non-empty string, and the key \<open>correlationId\<close> exactly when
  \<open>correlationId\<close> is a non-empty string. Constructing with the empty string as code
  serialises as constructing with no code.
\<close>

theorem toJSON_key_iff_nonempty:
  "(''code'' \<in> set (keys (ApiError_toJSON e)) \<longleftrightarrow> (\<exists>c. ApiError.code e = Some c \<and> c \<noteq> []))
   \<and> (''correlationId'' \<in> set (keys (ApiError_toJSON e))
        \<longleftrightarrow> (\<exists>c. correlationId e = Some c \<and> c \<noteq> []))
   \<and> map_sum id ApiError_toJSON (ApiError_new w sc m es st (Some []))
       = map_sum id ApiError_toJSON (ApiError_new w sc m es st None)"
proof -
  have "''code'' \<in> set (keys (ApiError_toJSON e)) \<longleftrightarrow> (\<exists>c. ApiError.code e = Some c \<and> c \<noteq> [])"
    by (cases "ApiError.code e") (simp_all add: ApiError_toJSON_keys spread_string_keys)
  moreover have "''correlationId'' \<in> set (keys (ApiError_toJSON e))
        \<longleftrightarrow> (\<exists>c. correlationId e = Some c \<and> c \<noteq> [])"
    by (cases "correlationId e") (simp_all add: ApiError_toJSON_keys spread_string_keys)
  moreover have "map_sum id ApiError_toJSON (ApiError_new w sc m es st (Some []))
       = map_sum id ApiError_toJSON (ApiError_new w sc m es st None)"
    by (simp add: ApiError_new_def ApiError_toJSON_def spread_string_def)
  ultimately show ?thesis by blast
qed

section \<open>Facts about asyncHandler\<close>

lemma forwarded_catch_next:
  "forwarded (catch_next p) = (case p of Rejected err \<Rightarrow> [err] | Fulfilled \<Rightarrow> [] | Pending \<Rightarrow> [])"
  by (cases p) (simp_all add: forwarded_def catch_next_def)

lemma responses_catch_next: "responses (catch_next p) = []"
  by (cases p) (simp_all add: responses_def catch_next_def)

lemma wrapper_effects_eq:
  "wrapper_effects h req =
     (case snd (h req) of Throws err \<Rightarrow> [] | Returns p \<Rightarrow> catch_next p)"
  by (cases "h req"; cases "snd (h req)")
     (auto simp: wrapper_effects_def asyncHandler_def)

lemma asyncHandler_fst:
  "fst (asyncHandler h req) = fst (h req) @ wrapper_effects h req"
  by (cases "h req"; cases "snd (h req)")
     (auto simp: wrapper_effects_def asyncHandler_def)

lemma healthCheck_controller_run:
  "healthCheck_controller w req =
     ([Respond (Finite 200)
         [(''success'', JBool True), (''statusCode'', JNumber (Finite 200)),
          (''message'', JString ''Success''),
          (''data'', JObject [(''message'', JString ''Server is running.'')]),
          (''timestamp'', JString (now w))]],
      Returns Fulfilled)"
  by (simp add: healthCheck_controller_def ApiResponse_new_in_range ApiResponse_toJSON_def
      default_arg_def optional_key_def)

text \<open>
  C1. The claim: a controller that throws synchronously ends with exactly one failure
  forwarded to \<^verbatim>\<open>next\<close>. A controller whose call itself throws (a function that is
  not \<^verbatim>\<open>async\<close>) is not intercepted: the exception leaves the middleware, and
  nothing is forwarded to \<^verbatim>\<open>next\<close>.
\<close>

theorem asyncHandler_sync_throw_escapes:
  "asyncHandler (\<lambda>req. ([], Throws (Error ''boom''))) () = ([], Escaped (Error ''boom''))
   \<and> forwarded (fst (asyncHandler (\<lambda>req. ([], Throws (Error ''boom''))) ())) = []"
  by (simp add: asyncHandler_def forwarded_def)

text \<open>
  C4. A run of the middleware is the run of the controller followed by what the
  middleware adds. What it adds forwards the failure \<open>err\<close> to \<^verbatim>\<open>next\<close>, once, exactly
  when the promise the controller returned rejects with \<open>err\<close>; it forwards nothing
  when the promise is fulfilled; it never forwards more than one failure; and it
  never writes a response.
\<close>

theorem asyncHandler_forwards_iff_rejects:
  "fst (asyncHandler h req) = fst (h req) @ wrapper_effects h req
   \<and> (forwarded (wrapper_effects h req) = [err] \<longleftrightarrow> snd (h req) = Returns (Rejected err))
   \<and> (snd (h req) = Returns Fulfilled \<longrightarrow> forwarded (wrapper_effects h req) = [])
   \<and> length (forwarded (wrapper_effects h req)) \<le> 1
   \<and> responses (wrapper_effects h req) = []"
proof -
  have "forwarded (wrapper_effects h req) = [err] \<longleftrightarrow> snd (h req) = Returns (Rejected err)"
  proof (cases "snd (h req)")
    case (Throws e)
    then show ?thesis by (simp add: wrapper_effects_eq forwarded_def)
  next
    case (Returns p)
    then show ?thesis by (cases p) (simp_all add: wrapper_effects_eq forwarded_catch_next)
  qed
  moreover have "snd (h req) = Returns Fulfilled \<longrightarrow> forwarded (wrapper_effects h req) = []"
    by (simp add: wrapper_effects_eq forwarded_catch_next)
  moreover have "length (forwarded (wrapper_effects h req)) \<le> 1"
  proof (cases "snd (h req)")
    case (Throws e)
    then show ?thesis by (simp add: wrapper_effects_eq forwarded_def)
  next
    case (Returns p)
    then show ?thesis by (cases p) (simp_all add: wrapper_effects_eq forwarded_catch_next)
  qed
  moreover have "responses (wrapper_effects h req) = []"
  proof (cases "snd (h req)")
    case (Throws e)
    then show ?thesis by (simp add: wrapper_effects_eq responses_def)
  next
    case (Returns p)
    then show ?thesis by (simp add: wrapper_effects_eq responses_catch_next)
  qed
  ultimately show ?thesis using asyncHandler_fst [of h req] by blast
qed

theorem asyncHandler_forwards_iff_rejects_witness:
  "forwarded (wrapper_effects
      (healthCheck_controller \<lparr> now = ''2025-08-20T07:28:00.000Z'', captured_stack = [],
        number_text = (\<lambda>r. ''?'') \<rparr>) ()) = []
   \<and> forwarded (wrapper_effects (\<lambda>req. ([], Returns (Rejected (Error ''db down'')))) ())
       = [Error ''db down'']"
proof -
  have fulfilled:
    "snd (healthCheck_controller \<lparr> now = ''2025-08-20T07:28:00.000Z'', captured_stack = [],
        number_text = (\<lambda>r. ''?'') \<rparr> ())
       = Returns Fulfilled"
    by (simp add: healthCheck_controller_run)
  have rejected:
    "snd ((\<lambda>req::unit. ([] :: error effect list, Returns (Rejected (Error ''db down'')))) ())
       = Returns (Rejected (Error ''db down''))"
    by simp
  from asyncHandler_forwards_iff_rejects
         [of "healthCheck_controller \<lparr> now = ''2025-08-20T07:28:00.000Z'', captured_stack = [],
        number_text = (\<lambda>r. ''?'') \<rparr>" "()"]
       fulfilled
  have first: "forwarded (wrapper_effects
      (healthCheck_controller \<lparr> now = ''2025-08-20T07:28:00.000Z'', captured_stack = [],
        number_text = (\<lambda>r. ''?'') \<rparr>) ()) = []"
    by blast
  from asyncHandler_forwards_iff_rejects
         [of "\<lambda>req::unit. ([] :: error effect list, Returns (Rejected (Error ''db down'')))" "()"
             "Error ''db down''"]
       rejected
  have second: "forwarded (wrapper_effects (\<lambda>req::unit. ([], Returns (Rejected (Error ''db down'')))) ())
       = [Error ''db down'']"
    by blast
  from first second show ?thesis by simp
qed


end
